theory Spec2Isabelle
  imports Main "HOL-Library.Word"
begin

section \<open>Go library functions used by the converter\<close>

text \<open>
  Go strings are byte sequences; they are modelled as \<^typ>\<open>string\<close> (a list of
  8-bit characters). The functions of Go's \<^verbatim>\<open>strings\<close> and \<^verbatim>\<open>unicode\<close>
  packages are modelled on ASCII text, which is what C identifiers and the parser's
  \<^verbatim>\<open>\w+\<close> groups consist of: letters are \<^verbatim>\<open>a-z\<close>/\<^verbatim>\<open>A-Z\<close> and white space is
  tab, line feed, vertical tab, form feed, carriage return and space. Bytes above 127
  are left unchanged by the case mappings and are never white space in this model.
\<close>

abbreviation tab :: string where
  "tab \<equiv> [CHR 0x09]"

definition unicode_ToUpper :: "char \<Rightarrow> char" where
  "unicode_ToUpper c =
     (let n = (of_char c :: nat) in if 97 \<le> n \<and> n \<le> 122 then char_of (n - 32) else c)"

definition unicode_ToLower :: "char \<Rightarrow> char" where
  "unicode_ToLower c =
     (let n = (of_char c :: nat) in if 65 \<le> n \<and> n \<le> 90 then char_of (n + 32) else c)"

definition unicode_IsSpace :: "char \<Rightarrow> bool" where
  "unicode_IsSpace c = (c \<in> {CHR 0x09, CHR 0x0A, CHR 0x0B, CHR 0x0C, CHR 0x0D, CHR 0x20})"

definition strings_ToUpper :: "string \<Rightarrow> string" where
  "strings_ToUpper s = map unicode_ToUpper s"

definition strings_ToLower :: "string \<Rightarrow> string" where
  "strings_ToLower s = map unicode_ToLower s"

definition strings_HasPrefix :: "string \<Rightarrow> string \<Rightarrow> bool" where
  "strings_HasPrefix s prefix = (take (length prefix) s = prefix)"

definition strings_HasSuffix :: "string \<Rightarrow> string \<Rightarrow> bool" where
  "strings_HasSuffix s suffix =
     (length suffix \<le> length s \<and> drop (length s - length suffix) s = suffix)"

definition strings_TrimPrefix :: "string \<Rightarrow> string \<Rightarrow> string" where
  "strings_TrimPrefix s prefix =
     (if strings_HasPrefix s prefix then drop (length prefix) s else s)"

definition strings_TrimSpace :: "string \<Rightarrow> string" where
  "strings_TrimSpace s =
     rev (dropWhile unicode_IsSpace (rev (dropWhile unicode_IsSpace s)))"

text \<open>
  \<^verbatim>\<open>strings.FieldsFunc(s, f)\<close> splits \<open>s\<close> at each run of characters satisfying \<open>f\<close>
  and returns the pieces between the runs; no piece is empty. The accumulator
  \<open>cur\<close> is the piece being read.
\<close>

fun fieldsFrom :: "(char \<Rightarrow> bool) \<Rightarrow> string \<Rightarrow> string \<Rightarrow> string list" where
  "fieldsFrom f cur [] = (if cur = [] then [] else [cur])"
| "fieldsFrom f cur (c # cs) =
     (if f c then (if cur = [] then fieldsFrom f [] cs else cur # fieldsFrom f [] cs)
      else fieldsFrom f (cur @ [c]) cs)"

definition strings_FieldsFunc :: "string \<Rightarrow> (char \<Rightarrow> bool) \<Rightarrow> string list" where
  "strings_FieldsFunc s f = fieldsFrom f [] s"

definition strings_Fields :: "string \<Rightarrow> string list" where
  "strings_Fields s = fieldsFrom unicode_IsSpace [] s"

text \<open>
  \<^verbatim>\<open>strings.Split(s, sep)\<close> for a separator of one character (the converter splits at
  \<^verbatim>\<open>;\<close> and at \<^verbatim>\<open>,\<close> only): one piece more than there are separators, empty pieces
  included.
\<close>

fun splitFrom :: "char \<Rightarrow> string \<Rightarrow> string \<Rightarrow> string list" where
  "splitFrom sep cur [] = [cur]"
| "splitFrom sep cur (c # cs) =
     (if c = sep then cur # splitFrom sep [] cs else splitFrom sep (cur @ [c]) cs)"

definition strings_Split :: "string \<Rightarrow> char \<Rightarrow> string list" where
  "strings_Split s sep = splitFrom sep [] s"

fun strings_Join :: "string list \<Rightarrow> string \<Rightarrow> string" where
  "strings_Join [] sep = []"
| "strings_Join [x] sep = x"
| "strings_Join (x # y # ys) sep = x @ sep @ strings_Join (y # ys) sep"

fun strings_Contains :: "string \<Rightarrow> string \<Rightarrow> bool" where
  "strings_Contains [] substr = (substr = [])"
| "strings_Contains (c # cs) substr =
     (strings_HasPrefix (c # cs) substr \<or> strings_Contains cs substr)"

text \<open>
  \<^verbatim>\<open>strings.Index(s, sep)\<close> for a separator of one character: the position of its first
  occurrence, \<open>None\<close> where Go returns \<open>-1\<close>.
\<close>

definition strings_Index :: "string \<Rightarrow> char \<Rightarrow> nat option" where
  "strings_Index s sep =
     (if sep \<in> set s then Some (length (takeWhile (\<lambda>c. c \<noteq> sep) s)) else None)"

text \<open>
  \<^verbatim>\<open>strings.ReplaceAll(s, old, new)\<close> for a non-empty \<open>old\<close> (the converter replaces
  \<^verbatim>\<open>const\<close>, \<^verbatim>\<open>unsigned\<close>, \<^verbatim>\<open>*\<close> and line ends): the occurrences of \<open>old\<close> are
  replaced from left to right, without overlap.
\<close>

function strings_ReplaceAll :: "string \<Rightarrow> string \<Rightarrow> string \<Rightarrow> string" where
  "strings_ReplaceAll s old new =
     (if s = [] \<or> old = [] then s
      else if strings_HasPrefix s old
        then new @ strings_ReplaceAll (drop (length old) s) old new
      else hd s # strings_ReplaceAll (tl s) old new)"
  by pat_completeness auto
termination
  by (relation "measure (\<lambda>(s, old, new). length s)") auto

section \<open>The declaration model (parser/types.go)\<close>

record CType =
  Name :: string
  IsPointer :: bool
  IsConst :: bool
  IsUnsigned :: bool
  IsArray :: bool
  ArraySize :: int

record StructField =
  Name :: string
  Type :: CType

record Struct =
  Name :: string
  TypeDef :: string
  Fields :: "StructField list"
  IsOpaque :: bool

record FunctionParam =
  Name :: string
  Type :: CType

record Function =
  Name :: string
  ReturnType :: CType
  Params :: "FunctionParam list"
  IsVariadic :: bool

record TypeDef =
  Name :: string
  SourceType :: CType

record EnumValue =
  Name :: string
  Value :: string

record Enum =
  Name :: string
  Values :: "EnumValue list"

record Header =
  Structs :: "Struct list"
  Functions :: "Function list"
  TypeDefs :: "TypeDef list"
  Enums :: "Enum list"

section \<open>The generator (generator/generator.go)\<close>

record Generator =
  packageName :: string
  libName :: string
  header :: Header

subsection \<open>Names\<close>

definition acronyms :: "string list" where
  "acronyms =
     [''id'', ''url'', ''api'', ''http'', ''json'', ''xml'', ''sql'', ''io'', ''ip'',
      ''tcp'', ''udp'']"

text \<open>
  The inner loop of \<^verbatim>\<open>toGoName\<close> over the acronyms: at the first acronym equal to the
  lower-cased part the builder is reset and receives the upper-cased part, and the
  loop is left.
\<close>

fun acronymLoop :: "string list \<Rightarrow> string \<Rightarrow> string \<Rightarrow> string" where
  "acronymLoop [] part result = result"
| "acronymLoop (acronym # rest) part result =
     (if strings_ToLower part = acronym then strings_ToUpper part
      else acronymLoop rest part result)"

text \<open>
  The body of the loop of \<^verbatim>\<open>toGoName\<close> over the parts: \<open>result\<close> is the content of
  the string builder before the part, the value is its content after it.
\<close>

definition toGoNamePart :: "string \<Rightarrow> string \<Rightarrow> string" where
  "toGoNamePart result part =
     (case part of
        [] \<Rightarrow> result
      | c # cs \<Rightarrow>
          (let result = result @ strings_ToUpper [c] in
           if length part > 1 then
             (let lower = strings_ToLower cs;
                  result = acronymLoop acronyms part result
              in if length result > 0 \<and> \<not> strings_HasSuffix result (strings_ToUpper part)
                 then result @ lower else result)
           else result))"

definition toGoName :: "string \<Rightarrow> string" where
  "toGoName name =
     (if name = [] then []
      else foldl toGoNamePart [] (strings_FieldsFunc name (\<lambda>r. r = CHR ''_'')))"

definition toLowerCamel :: "string \<Rightarrow> string" where
  "toLowerCamel name =
     (case toGoName name of
        [] \<Rightarrow> []
      | r # runes \<Rightarrow> unicode_ToLower r # runes)"

definition toGoEnumName :: "string \<Rightarrow> string \<Rightarrow> string" where
  "toGoEnumName enumName valueName = toGoName valueName"

subsection \<open>Type classification\<close>

definition isStringType :: "CType \<Rightarrow> bool" where
  "isStringType ct = (IsPointer ct \<and> CType.Name ct = ''char'')"

definition isStringReturnType :: "CType \<Rightarrow> bool" where
  "isStringReturnType ct = (IsPointer ct \<and> CType.Name ct = ''char'')"

definition needsFFIArg :: "CType \<Rightarrow> bool" where
  "needsFFIArg ct =
     (if IsPointer ct \<or> CType.Name ct = ''void'' then False
      else if CType.Name ct \<in> {''int8_t'', ''uint8_t'', ''char'', ''bool''} then True
      else if CType.Name ct \<in> {''int16_t'', ''uint16_t'', ''short''} then True
      else if CType.Name ct \<in> {''int32_t'', ''uint32_t'', ''int''} then True
      else if CType.Name ct \<in> {''float'', ''double''} then False
      else False)"

definition isOpaqueHandle :: "CType \<Rightarrow> Header \<Rightarrow> bool" where
  "isOpaqueHandle ct hdr =
     (if \<not> IsPointer ct then False
      else list_ex (\<lambda>s. Struct.Name s = CType.Name ct \<and> IsOpaque s) (Structs hdr))"

definition isStructByValue :: "CType \<Rightarrow> Header \<Rightarrow> bool" where
  "isStructByValue ct hdr =
     (if IsPointer ct then False
      else list_ex (\<lambda>s. Struct.Name s = CType.Name ct \<and> \<not> IsOpaque s) (Structs hdr))"

subsection \<open>Type mapping\<close>

text \<open>
  The \<^verbatim>\<open>switch\<close> of \<^verbatim>\<open>cTypeToGoType\<close> on the name of a type that is not a pointer. In
  its \<^verbatim>\<open>default\<close> case the loop over the structs, the loop over the enums and the
  final \<^verbatim>\<open>return\<close> all give \<^verbatim>\<open>toGoName(ct.Name)\<close>.
\<close>

definition goTypeSwitch :: "CType \<Rightarrow> Header \<Rightarrow> string" where
  "goTypeSwitch ct hdr =
     (let n = CType.Name ct in
      if n = ''void'' then []
      else if n = ''bool'' then ''bool''
      else if n = ''char'' then (if IsUnsigned ct then ''uint8'' else ''int8'')
      else if n = ''short'' then (if IsUnsigned ct then ''uint16'' else ''int16'')
      else if n = ''int'' then (if IsUnsigned ct then ''uint32'' else ''int32'')
      else if n = ''long'' then (if IsUnsigned ct then ''uint64'' else ''int64'')
      else if n = ''int8_t'' then ''int8''
      else if n = ''uint8_t'' then ''uint8''
      else if n = ''int16_t'' then ''int16''
      else if n = ''uint16_t'' then ''uint16''
      else if n = ''int32_t'' then ''int32''
      else if n = ''uint32_t'' then ''uint32''
      else if n = ''int64_t'' then ''int64''
      else if n = ''uint64_t'' then ''uint64''
      else if n = ''size_t'' then ''uint64''
      else if n = ''float'' then ''float32''
      else if n = ''double'' then ''float64''
      else if list_ex (\<lambda>s. Struct.Name s = n) (Structs hdr) then toGoName n
      else if list_ex (\<lambda>e. Enum.Name e = n) (Enums hdr) then toGoName n
      else toGoName n)"

definition cTypeToGoType :: "CType \<Rightarrow> Header \<Rightarrow> string" where
  "cTypeToGoType ct hdr =
     (if IsPointer ct \<and> (CType.Name ct = ''char'' \<or> CType.Name ct = ''char *'')
      then ''string''
      else if IsPointer ct then
        (if list_ex (\<lambda>s. Struct.Name s = CType.Name ct \<and> \<not> IsOpaque s) (Structs hdr)
         then ''*'' @ toGoName (CType.Name ct)
         else ''uintptr'')
      else goTypeSwitch ct hdr)"

definition cTypeToFFIType :: "CType \<Rightarrow> Header \<Rightarrow> string" where
  "cTypeToFFIType ct hdr =
     (let n = CType.Name ct in
      if IsPointer ct then ''&ffi.TypePointer''
      else if n = ''void'' then ''&ffi.TypeVoid''
      else if n = ''bool'' then ''&ffi.TypeUint8''
      else if n = ''char'' then
        (if IsUnsigned ct then ''&ffi.TypeUint8'' else ''&ffi.TypeSint8'')
      else if n = ''short'' then
        (if IsUnsigned ct then ''&ffi.TypeUint16'' else ''&ffi.TypeSint16'')
      else if n = ''int'' then
        (if IsUnsigned ct then ''&ffi.TypeUint32'' else ''&ffi.TypeSint32'')
      else if n = ''long'' then
        (if IsUnsigned ct then ''&ffi.TypeUint64'' else ''&ffi.TypeSint64'')
      else if n = ''int8_t'' then ''&ffi.TypeSint8''
      else if n = ''uint8_t'' then ''&ffi.TypeUint8''
      else if n = ''int16_t'' then ''&ffi.TypeSint16''
      else if n = ''uint16_t'' then ''&ffi.TypeUint16''
      else if n = ''int32_t'' then ''&ffi.TypeSint32''
      else if n = ''uint32_t'' then ''&ffi.TypeUint32''
      else if n = ''int64_t'' then ''&ffi.TypeSint64''
      else if n = ''uint64_t'' then ''&ffi.TypeUint64''
      else if n = ''size_t'' then ''&ffi.TypeUint64''
      else if n = ''float'' then ''&ffi.TypeFloat''
      else if n = ''double'' then ''&ffi.TypeDouble''
      else if list_ex (\<lambda>s. Struct.Name s = n \<and> \<not> IsOpaque s) (Structs hdr)
        then ''&FFIType'' @ toGoName n
      else ''&ffi.TypePointer'')"

subsection \<open>Results and errors\<close>

text \<open>
  A Go function with the result \<^verbatim>\<open>(T, error)\<close> is modelled with the result type
  \<open>error + T\<close>: \<open>Inr x\<close> is the result \<open>x\<close> with a \<^verbatim>\<open>nil\<close> error, \<open>Inl e\<close> is a
  non-\<^verbatim>\<open>nil\<close> error. A run-time panic (an index out of range) is the error \<open>Panic\<close>.
\<close>

datatype error = Error string | Panic string

subsection \<open>Emitting types.go\<close>

text \<open>The bodies of the two loops of \<^verbatim>\<open>generateTypes\<close> over the fields of a struct.\<close>

definition structFieldLine :: "Header \<Rightarrow> StructField \<Rightarrow> string" where
  "structFieldLine hdr f =
     (let goType = cTypeToGoType (StructField.Type f) hdr in
      tab @ toGoName (StructField.Name f) @ '' '' @ goType @ ''\<newline>'')"

definition structFFILine :: "Header \<Rightarrow> StructField \<Rightarrow> string" where
  "structFFILine hdr f =
     (let ffiType = cTypeToFFIType (StructField.Type f) hdr in
      tab @ ffiType @ '',\<newline>'')"

text \<open>The body of the loop over the structs.\<close>

definition generateStruct :: "Header \<Rightarrow> Struct \<Rightarrow> string" where
  "generateStruct hdr s =
     (if IsOpaque s then ''type '' @ toGoName (Struct.Name s) @ '' uintptr\<newline>\<newline>''
      else
        ''type '' @ toGoName (Struct.Name s) @ '' struct {\<newline>''
        @ concat (map (structFieldLine hdr) (Fields s))
        @ ''}\<newline>\<newline>''
        @ ''var FFIType'' @ toGoName (Struct.Name s) @ '' = ffi.NewType(\<newline>''
        @ concat (map (structFFILine hdr) (Fields s))
        @ '')\<newline>\<newline>'')"

text \<open>
  The body of the loop over the values of an enum \<open>e\<close>: \<open>i\<close> is the index of the value
  \<open>v\<close>.
\<close>

definition enumValueLine :: "Enum \<Rightarrow> nat \<times> EnumValue \<Rightarrow> string" where
  "enumValueLine e iv =
     (case iv of (i, v) \<Rightarrow>
        if Value v \<noteq> [] then
          tab @ toGoEnumName (Enum.Name e) (EnumValue.Name v) @ '' '' @ toGoName (Enum.Name e)
          @ '' = '' @ Value v @ ''\<newline>''
        else if i = 0 then
          tab @ toGoEnumName (Enum.Name e) (EnumValue.Name v) @ '' '' @ toGoName (Enum.Name e)
          @ '' = iota\<newline>''
        else tab @ toGoEnumName (Enum.Name e) (EnumValue.Name v) @ ''\<newline>'')"

text \<open>The body of the loop over the enums.\<close>

definition generateEnum :: "Enum \<Rightarrow> string" where
  "generateEnum e =
     ''type '' @ toGoName (Enum.Name e) @ '' int32\<newline>\<newline>''
     @ ''const (\<newline>''
     @ concat (map (enumValueLine e) (enumerate 0 (Values e)))
     @ '')\<newline>\<newline>''"

definition generateTypes :: "Generator \<Rightarrow> error + string" where
  "generateTypes g =
     Inr (''package '' @ packageName g @ ''\<newline>\<newline>''
          @ ''import \"github.com/jupiterrider/ffi\"\<newline>\<newline>''
          @ concat (map (generateStruct (header g)) (Structs (header g)))
          @ concat (map generateEnum (Enums (header g))))"

subsection \<open>Emitting functions.go\<close>

text \<open>
  The name a wrapper gives to a parameter: \<^verbatim>\<open>toLowerCamel(p.Name)\<close>, and \<^verbatim>\<open>arg\<close> where
  that is empty.
\<close>

definition paramName :: "FunctionParam \<Rightarrow> string" where
  "paramName p =
     (let paramName = toLowerCamel (FunctionParam.Name p) in
      if paramName = [] then ''arg'' else paramName)"

text \<open>
  The bodies of the three loops of \<^verbatim>\<open>generateFunctionWrapper\<close> over the parameters:
  the parameter list of the signature, the conversions before the call, and the
  arguments of the call.
\<close>

definition paramDecl :: "Generator \<Rightarrow> FunctionParam \<Rightarrow> string" where
  "paramDecl g p =
     (let goType = cTypeToGoType (FunctionParam.Type p) (header g) in
      paramName p @ '' '' @ goType)"

definition stringConversion :: "FunctionParam \<Rightarrow> string" where
  "stringConversion p =
     (if isStringType (FunctionParam.Type p)
      then tab @ paramName p @ ''Ptr, _ := unix.BytePtrFromString('' @ paramName p @ '')\<newline>''
      else [])"

definition callArg :: "Generator \<Rightarrow> FunctionParam \<Rightarrow> string" where
  "callArg g p =
     (if isStringType (FunctionParam.Type p)
        then ''unsafe.Pointer(&'' @ paramName p @ ''Ptr)''
      else if isStructByValue (FunctionParam.Type p) (header g)
        then ''&'' @ paramName p
      else ''unsafe.Pointer(&'' @ paramName p @ '')'')"

text \<open>
  \<^verbatim>\<open>generateFunctionWrapper\<close> writes a wrapper in six steps, in this order: the signature,
  the conversions of the string parameters, the declaration of the result slot, the
  call with its arguments, the return statement and the closing brace. The steps that
  branch on the return type are defined one by one.
\<close>

definition wrapperSignature :: "Generator \<Rightarrow> Function \<Rightarrow> string" where
  "wrapperSignature g fn =
     (let goFuncName = toGoName (Function.Name fn);
          params = map (paramDecl g) (Params fn);
          paramsStr = strings_Join params '', '';
          retGoType = cTypeToGoType (ReturnType fn) (header g);
          hasReturn = (CType.Name (ReturnType fn) \<noteq> ''void'')
      in if hasReturn
         then ''func '' @ goFuncName @ ''('' @ paramsStr @ '') '' @ retGoType @ '' {\<newline>''
         else ''func '' @ goFuncName @ ''('' @ paramsStr @ '') {\<newline>'')"

definition wrapperResultDecl :: "Generator \<Rightarrow> Function \<Rightarrow> string" where
  "wrapperResultDecl g fn =
     (let retGoType = cTypeToGoType (ReturnType fn) (header g);
          hasReturn = (CType.Name (ReturnType fn) \<noteq> ''void'')
      in if hasReturn then
           (if needsFFIArg (ReturnType fn) then tab @ ''var result ffi.Arg\<newline>''
            else if isStringReturnType (ReturnType fn) then tab @ ''var resultPtr *byte\<newline>''
            else if isOpaqueHandle (ReturnType fn) (header g)
              then tab @ ''var result '' @ retGoType @ ''\<newline>''
            else tab @ ''var result '' @ retGoType @ ''\<newline>'')
         else [])"

definition wrapperCallArgs :: "Generator \<Rightarrow> Function \<Rightarrow> string list" where
  "wrapperCallArgs g fn =
     (let hasReturn = (CType.Name (ReturnType fn) \<noteq> ''void'');
          callArgs =
            (if hasReturn then
               (if isStringReturnType (ReturnType fn) then [''unsafe.Pointer(&resultPtr)'']
                else [''unsafe.Pointer(&result)''])
             else [''nil''])
      in callArgs @ map (callArg g) (Params fn))"

definition wrapperReturn :: "Generator \<Rightarrow> Function \<Rightarrow> string" where
  "wrapperReturn g fn =
     (let retGoType = cTypeToGoType (ReturnType fn) (header g);
          hasReturn = (CType.Name (ReturnType fn) \<noteq> ''void'')
      in if hasReturn then
           (if needsFFIArg (ReturnType fn) then
              (if CType.Name (ReturnType fn) = ''bool''
                  \<or> (CType.Name (ReturnType fn) = ''uint8'' \<and> \<not> IsPointer (ReturnType fn))
               then tab @ ''return result.Bool()\<newline>''
               else tab @ ''return '' @ retGoType @ ''(result)\<newline>'')
            else if isStringReturnType (ReturnType fn) then
              tab @ ''if resultPtr == nil {\<newline>''
              @ tab @ tab @ ''return \"\"\<newline>''
              @ tab @ ''}\<newline>''
              @ tab @ ''return unix.BytePtrToString(resultPtr)\<newline>''
            else tab @ ''return result\<newline>'')
         else [])"

definition generateFunctionWrapper :: "Generator \<Rightarrow> Function \<Rightarrow> string" where
  "generateFunctionWrapper g fn =
     (let funcVarName = toLowerCamel (Function.Name fn) @ ''Func'' in
      wrapperSignature g fn
      @ concat (map stringConversion (Params fn))
      @ wrapperResultDecl g fn
      @ tab @ funcVarName @ ''.Call('' @ strings_Join (wrapperCallArgs g fn) '', '' @ '')\<newline>''
      @ wrapperReturn g fn
      @ ''}\<newline>'')"

text \<open>The bodies of the two loops of \<^verbatim>\<open>generateFunctions\<close> before the wrappers.\<close>

definition funcVarDecl :: "Function \<Rightarrow> string" where
  "funcVarDecl fn =
     (let funcVarName = toLowerCamel (Function.Name fn) @ ''Func'' in
      tab @ funcVarName @ '' ffi.Fun\<newline>'')"

definition prepStatement :: "Generator \<Rightarrow> Function \<Rightarrow> string" where
  "prepStatement g fn =
     (let funcVarName = toLowerCamel (Function.Name fn) @ ''Func'';
          retFFI = cTypeToFFIType (ReturnType fn) (header g);
          argFFIs = map (\<lambda>p. cTypeToFFIType (FunctionParam.Type p) (header g)) (Params fn)
      in (if length argFFIs = 0
          then tab @ ''if '' @ funcVarName @ '', err = lib.Prep(\"'' @ Function.Name fn @ ''\", ''
               @ retFFI @ ''); err != nil {\<newline>''
          else tab @ ''if '' @ funcVarName @ '', err = lib.Prep(\"'' @ Function.Name fn @ ''\", ''
               @ retFFI @ '', '' @ strings_Join argFFIs '', '' @ ''); err != nil {\<newline>'')
         @ tab @ tab @ ''return fmt.Errorf(\"'' @ Function.Name fn @ '': %w\", err)\<newline>''
         @ tab @ ''}\<newline>\<newline>'')"

definition generateFunctions :: "Generator \<Rightarrow> error + string" where
  "generateFunctions g =
     Inr (''package '' @ packageName g @ ''\<newline>\<newline>''
          @ ''import (\<newline>''
          @ tab @ ''\"fmt\"\<newline>''
          @ tab @ ''\"unsafe\"\<newline>\<newline>''
          @ tab @ ''\"github.com/jupiterrider/ffi\"\<newline>''
          @ tab @ ''\"golang.org/x/sys/unix\"\<newline>''
          @ '')\<newline>\<newline>''
          @ ''var _ = unix.BytePtrFromString\<newline>\<newline>''
          @ ''var (\<newline>''
          @ concat (map funcVarDecl (Functions (header g)))
          @ '')\<newline>\<newline>''
          @ ''func loadFuncs() error {\<newline>''
          @ tab @ ''var err error\<newline>\<newline>''
          @ concat (map (prepStatement g) (Functions (header g)))
          @ tab @ ''return nil\<newline>''
          @ ''}\<newline>\<newline>''
          @ concat (map (\<lambda>fn. generateFunctionWrapper g fn @ ''\<newline>'') (Functions (header g))))"

section \<open>The parser (parser/parser.go)\<close>

subsection \<open>Regular expressions, indexing and loops\<close>

text \<open>
  The parser's eight compiled regular expressions are named as its package-level
  variables are. Matching is the work of Go's \<^verbatim>\<open>regexp\<close> package, which is not part of
  the converter: the two methods the parser calls are parameters of the model. A match
  of \<^verbatim>\<open>FindAllStringSubmatch\<close> is the list of the whole match and of its groups.
\<close>

datatype Regexp =
  blockCommentRe | lineCommentRe | multiSpaceRe | typedefRe | opaqueRe | structRe | enumRe
  | funcRe

record RegexpMethods =
  ReplaceAllString :: "Regexp \<Rightarrow> string \<Rightarrow> string \<Rightarrow> string"
  FindAllStringSubmatch :: "Regexp \<Rightarrow> string \<Rightarrow> string list list"

text \<open>An index expression \<^verbatim>\<open>xs[i]\<close>: Go panics where \<open>i\<close> is out of range.\<close>

definition index :: "'a list \<Rightarrow> nat \<Rightarrow> error + 'a" where
  "index xs i = (if i < length xs then Inr (xs ! i) else Inl (Panic ''index out of range''))"

definition andThen :: "error + 'a \<Rightarrow> ('a \<Rightarrow> error + 'b) \<Rightarrow> error + 'b" where
  "andThen r f = (case r of Inl e \<Rightarrow> Inl e | Inr x \<Rightarrow> f x)"

text \<open>
  A \<^verbatim>\<open>for ... range\<close> loop: \<open>body x s\<close> is the state of the variables the loop assigns
  after the iteration for \<open>x\<close> that started in \<open>s\<close> (a \<^verbatim>\<open>continue\<close> gives \<open>s\<close> back); a panic
  ends the loop.
\<close>

fun forEach :: "('a \<Rightarrow> 's \<Rightarrow> error + 's) \<Rightarrow> 'a list \<Rightarrow> 's \<Rightarrow> error + 's" where
  "forEach body [] s = Inr s"
| "forEach body (x # xs) s = andThen (body x s) (forEach body xs)"

subsection \<open>Types\<close>

definition parseCType :: "string \<Rightarrow> CType" where
  "parseCType typeStr =
     (let typeStr = strings_TrimSpace typeStr;
          ct = \<lparr>CType.Name = [], IsPointer = False, IsConst = False, IsUnsigned = False,
                IsArray = False, ArraySize = 0\<rparr>;
          (ct, typeStr) =
            (if strings_Contains typeStr ''const''
             then (ct\<lparr>IsConst := True\<rparr>,
                   strings_TrimSpace (strings_ReplaceAll typeStr ''const'' []))
             else (ct, typeStr));
          (ct, typeStr) =
            (if strings_Contains typeStr ''unsigned''
             then (ct\<lparr>IsUnsigned := True\<rparr>,
                   strings_TrimSpace (strings_ReplaceAll typeStr ''unsigned'' []))
             else (ct, typeStr));
          (ct, typeStr) =
            (if strings_HasSuffix typeStr ''*'' \<or> strings_Contains typeStr ''* ''
             then (ct\<lparr>IsPointer := True\<rparr>,
                   strings_TrimSpace (strings_ReplaceAll typeStr ''*'' []))
             else (ct, typeStr))
      in ct\<lparr>CType.Name := strings_TrimSpace typeStr\<rparr>)"

subsection \<open>Typedefs and structs\<close>

definition parseTypeDefMatch :: "string list \<Rightarrow> Header \<Rightarrow> error + Header" where
  "parseTypeDefMatch m hdr =
     (if length m < 3 then Inr hdr
      else
        andThen (index m 1) (\<lambda>m1.
        andThen (index m 2) (\<lambda>m2.
          let srcType = strings_TrimSpace m1;
              name = strings_TrimSpace m2;
              ctype = parseCType srcType
          in Inr (hdr\<lparr>TypeDefs := TypeDefs hdr
                      @ [\<lparr>TypeDef.Name = name, SourceType = ctype\<rparr>]\<rparr>))))"

definition parseOpaqueMatch :: "string list \<Rightarrow> Header \<Rightarrow> error + Header" where
  "parseOpaqueMatch m hdr =
     (if length m < 3 then Inr hdr
      else
        andThen (index m 2) (\<lambda>m2.
          let name = strings_TrimSpace m2
          in Inr (hdr\<lparr>Structs := Structs hdr
                      @ [\<lparr>Struct.Name = name, TypeDef = [], Fields = [], IsOpaque = True\<rparr>]\<rparr>)))"

definition parseTypeDefs :: "RegexpMethods \<Rightarrow> string \<Rightarrow> Header \<Rightarrow> error + Header" where
  "parseTypeDefs re content hdr =
     andThen (forEach parseTypeDefMatch (FindAllStringSubmatch re typedefRe content) hdr)
       (\<lambda>hdr. forEach parseOpaqueMatch (FindAllStringSubmatch re opaqueRe content) hdr)"

text \<open>
  The body of the loop of \<^verbatim>\<open>parseStructFields\<close>. The \<^verbatim>\<open>append\<close> to \<^verbatim>\<open>typeParts\<close> writes
  into the array of \<^verbatim>\<open>parts\<close>, after the last use of its last element.
\<close>

definition parseStructFieldLine :: "string \<Rightarrow> StructField list \<Rightarrow> error + StructField list" where
  "parseStructFieldLine line fieldList =
     (let line = strings_TrimSpace line in
      if line = [] then Inr fieldList
      else
        let parts = strings_Fields line in
        if length parts < 2 then Inr fieldList
        else
          andThen (index parts (length parts - 1)) (\<lambda>lastPart.
            let name = strings_TrimPrefix lastPart ''*'';
                typeParts = take (length parts - 1) parts;
                typeParts =
                  (if strings_HasPrefix lastPart ''*'' then typeParts @ [''*''] else typeParts);
                typeStr = strings_Join typeParts '' '';
                ctype = parseCType typeStr
            in Inr (fieldList @ [\<lparr>StructField.Name = name, Type = ctype\<rparr>])))"

definition parseStructFields :: "string \<Rightarrow> error + StructField list" where
  "parseStructFields body = forEach parseStructFieldLine (strings_Split body (CHR '';'')) []"

definition parseStructMatch :: "string list \<Rightarrow> Header \<Rightarrow> error + Header" where
  "parseStructMatch m hdr =
     (if length m < 3 then Inr hdr
      else
        andThen (index m 1) (\<lambda>m1.
        andThen (index m 2) (\<lambda>m2.
          let body = strings_TrimSpace m1;
              name = strings_TrimSpace m2
          in andThen (parseStructFields body) (\<lambda>fieldList.
               Inr (hdr\<lparr>Structs := Structs hdr
                      @ [\<lparr>Struct.Name = name, TypeDef = [], Fields = fieldList,
                          IsOpaque = False\<rparr>]\<rparr>)))))"

definition parseStructs :: "RegexpMethods \<Rightarrow> string \<Rightarrow> Header \<Rightarrow> error + Header" where
  "parseStructs re content hdr =
     forEach parseStructMatch (FindAllStringSubmatch re structRe content) hdr"

subsection \<open>Enums\<close>

definition parseEnumValuePart :: "string \<Rightarrow> EnumValue list \<Rightarrow> error + EnumValue list" where
  "parseEnumValuePart part vals =
     (let part = strings_TrimSpace part in
      if part = [] then Inr vals
      else
        (case strings_Index part (CHR ''='') of
           Some idx \<Rightarrow>
             (let name = strings_TrimSpace (take idx part);
                  val = strings_TrimSpace (drop (idx + 1) part)
              in Inr (vals @ [\<lparr>EnumValue.Name = name, Value = val\<rparr>]))
         | None \<Rightarrow> Inr (vals @ [\<lparr>EnumValue.Name = part, Value = []\<rparr>])))"

definition parseEnumValues :: "string \<Rightarrow> error + EnumValue list" where
  "parseEnumValues body = forEach parseEnumValuePart (strings_Split body (CHR '','')) []"

definition parseEnumMatch :: "string list \<Rightarrow> Header \<Rightarrow> error + Header" where
  "parseEnumMatch m hdr =
     (if length m < 3 then Inr hdr
      else
        andThen (index m 1) (\<lambda>m1.
        andThen (index m 2) (\<lambda>m2.
          let body = strings_TrimSpace m1;
              name = strings_TrimSpace m2
          in andThen (parseEnumValues body) (\<lambda>vals.
               Inr (hdr\<lparr>Enums := Enums hdr @ [\<lparr>Enum.Name = name, Values = vals\<rparr>]\<rparr>)))))"

definition parseEnums :: "RegexpMethods \<Rightarrow> string \<Rightarrow> Header \<Rightarrow> error + Header" where
  "parseEnums re content hdr =
     forEach parseEnumMatch (FindAllStringSubmatch re enumRe content) hdr"

subsection \<open>Functions\<close>

text \<open>
  The body of the loop of \<^verbatim>\<open>parseParams\<close>: the state is the pair of \<^verbatim>\<open>params\<close> and
  \<^verbatim>\<open>isVariadic\<close>.
\<close>

definition parseParamPart ::
  "string \<Rightarrow> FunctionParam list \<times> bool \<Rightarrow> error + (FunctionParam list \<times> bool)" where
  "parseParamPart part st =
     (case st of (params, isVariadic) \<Rightarrow>
        let part = strings_TrimSpace part in
        if part = [] then Inr (params, isVariadic)
        else if part = ''...'' then Inr (params, True)
        else
          let tokens = strings_Fields part in
          if length tokens < 2
          then Inr (params @ [\<lparr>FunctionParam.Name = [], Type = parseCType part\<rparr>], isVariadic)
          else
            andThen (index tokens (length tokens - 1)) (\<lambda>lastToken.
              let name = strings_TrimPrefix lastToken ''*'';
                  typeParts = take (length tokens - 1) tokens;
                  typeParts =
                    (if strings_HasPrefix lastToken ''*'' then typeParts @ [''*'']
                     else typeParts);
                  typeStr = strings_Join typeParts '' ''
              in Inr (params @ [\<lparr>FunctionParam.Name = name, Type = parseCType typeStr\<rparr>],
                      isVariadic)))"

definition parseParams :: "string \<Rightarrow> error + (FunctionParam list \<times> bool)" where
  "parseParams paramsStr =
     forEach parseParamPart (strings_Split paramsStr (CHR '','')) ([], False)"

definition parseFunctionMatch :: "string list \<Rightarrow> Header \<Rightarrow> error + Header" where
  "parseFunctionMatch m hdr =
     (if length m < 4 then Inr hdr
      else
        andThen (index m 1) (\<lambda>m1.
        andThen (index m 2) (\<lambda>m2.
        andThen (index m 3) (\<lambda>m3.
          let retType = strings_TrimSpace m1;
              name = strings_TrimSpace m2;
              paramsStr = strings_TrimSpace m3;
              fn = \<lparr>Function.Name = name, ReturnType = parseCType retType, Params = [],
                    IsVariadic = False\<rparr>
          in andThen
               (if paramsStr = ''void'' \<or> paramsStr = [] then Inr (fn\<lparr>Params := []\<rparr>)
                else andThen (parseParams paramsStr) (\<lambda>r.
                       Inr (fn\<lparr>Params := fst r, IsVariadic := snd r\<rparr>)))
               (\<lambda>fn. Inr (hdr\<lparr>Functions := Functions hdr @ [fn]\<rparr>))))))"

definition parseFunctions :: "RegexpMethods \<Rightarrow> string \<Rightarrow> Header \<Rightarrow> error + Header" where
  "parseFunctions re content hdr =
     forEach parseFunctionMatch (FindAllStringSubmatch re funcRe content) hdr"

subsection \<open>Parse\<close>

definition removeComments :: "RegexpMethods \<Rightarrow> string \<Rightarrow> string" where
  "removeComments re s =
     (let s = ReplaceAllString re blockCommentRe s [];
          s = ReplaceAllString re lineCommentRe s []
      in s)"

definition normalizeWhitespace :: "RegexpMethods \<Rightarrow> string \<Rightarrow> string" where
  "normalizeWhitespace re s =
     (let s = strings_ReplaceAll s [CHR 0x0D, CHR 0x0A] [CHR 0x0A];
          s = strings_ReplaceAll s [CHR 0x0D] [CHR 0x0A];
          s = ReplaceAllString re multiSpaceRe s '' ''
      in s)"

definition Parse :: "RegexpMethods \<Rightarrow> string \<Rightarrow> error + Header" where
  "Parse re content =
     (let content = removeComments re content;
          content = normalizeWhitespace re content;
          hdr = \<lparr>Structs = [], Functions = [], TypeDefs = [], Enums = []\<rparr>
      in andThen (parseTypeDefs re content hdr) (\<lambda>hdr.
         andThen (parseStructs re content hdr) (\<lambda>hdr.
         andThen (parseEnums re content hdr) (\<lambda>hdr.
         andThen (parseFunctions re content hdr) (\<lambda>hdr.
           Inr hdr)))))"

section \<open>Notions used by the statements\<close>

text \<open>
  The case labels of the \<^verbatim>\<open>switch\<close> of \<^verbatim>\<open>cTypeToGoType\<close> and \<^verbatim>\<open>cTypeToFFIType\<close>: the fixed
  table of primitive type names.
\<close>

definition primitiveNames :: "string set" where
  "primitiveNames =
     {''void'', ''bool'', ''char'', ''short'', ''int'', ''long'', ''int8_t'', ''uint8_t'',
      ''int16_t'', ''uint16_t'', ''int32_t'', ''uint32_t'', ''int64_t'', ''uint64_t'',
      ''size_t'', ''float'', ''double''}"






section \<open>Auxiliary facts\<close>


lemma index_in_range: "i < length xs \<Longrightarrow> index xs i = Inr (xs ! i)"
  by (simp add: index_def)

lemma goTypeSwitch_default:
  "CType.Name ct \<notin> primitiveNames \<Longrightarrow> goTypeSwitch ct hdr = toGoName (CType.Name ct)"
  by (simp add: goTypeSwitch_def primitiveNames_def Let_def)

lemma string_not_struct_by_value: "isStringType ct \<Longrightarrow> \<not> isStructByValue ct hdr"
  by (simp add: isStringType_def isStructByValue_def)










subsection \<open>No step of the parser panics\<close>

lemma forEach_total:
  assumes "\<And>x s. \<exists>s'. body x s = Inr s'"
  shows "\<exists>s'. forEach body xs s = Inr s'"
proof (induction xs arbitrary: s)
  case Nil
  show ?case by simp
next
  case (Cons x xs)
  obtain s1 where "body x s = Inr s1" using assms by blast
  then show ?case using Cons.IH [of s1] by (simp add: andThen_def)
qed

lemma parseTypeDefMatch_total: "\<exists>h. parseTypeDefMatch m hdr = Inr h"
  by (simp add: parseTypeDefMatch_def index_in_range andThen_def Let_def)

lemma parseOpaqueMatch_total: "\<exists>h. parseOpaqueMatch m hdr = Inr h"
  by (simp add: parseOpaqueMatch_def index_in_range andThen_def Let_def)

lemma parseStructFieldLine_total: "\<exists>fs. parseStructFieldLine line fieldList = Inr fs"
  by (simp add: parseStructFieldLine_def index_in_range andThen_def Let_def)

lemma parseStructMatch_total: "\<exists>h. parseStructMatch m hdr = Inr h"
proof -
  obtain fs where "parseStructFields (strings_TrimSpace (m ! 1)) = Inr fs"
    unfolding parseStructFields_def
    using forEach_total [of parseStructFieldLine, OF parseStructFieldLine_total] by blast
  then show ?thesis
    by (simp add: parseStructMatch_def index_in_range andThen_def Let_def)
qed

lemma parseEnumValuePart_total: "\<exists>vs. parseEnumValuePart part vals = Inr vs"
  by (simp add: parseEnumValuePart_def Let_def split: option.split)

lemma parseEnumMatch_total: "\<exists>h. parseEnumMatch m hdr = Inr h"
proof -
  obtain vs where "parseEnumValues (strings_TrimSpace (m ! 1)) = Inr vs"
    unfolding parseEnumValues_def
    using forEach_total [of parseEnumValuePart, OF parseEnumValuePart_total] by blast
  then show ?thesis
    by (simp add: parseEnumMatch_def index_in_range andThen_def Let_def)
qed

lemma parseParamPart_total: "\<exists>st'. parseParamPart part st = Inr st'"
  by (cases st) (auto simp add: parseParamPart_def index_in_range andThen_def Let_def)

lemma parseParams_total: "\<exists>r. parseParams paramsStr = Inr r"
  unfolding parseParams_def
  using forEach_total [of parseParamPart, OF parseParamPart_total] by blast

lemma parseFunctionMatch_total: "\<exists>h. parseFunctionMatch m hdr = Inr h"
proof -
  obtain r where "parseParams (strings_TrimSpace (m ! 3)) = Inr r"
    using parseParams_total by blast
  then show ?thesis
    by (simp add: parseFunctionMatch_def index_in_range andThen_def Let_def)
qed

section \<open>The claims\<close>

subsection \<open>C1: a type that matches nothing\<close>

text \<open>
  Claim C1 says that a type that is not a pointer and whose name is no primitive of
  the table, no known struct and no known enum makes the type mapping fail with an
  UnknownType error. The code has no such error: \<^verbatim>\<open>cTypeToGoType\<close> and
  \<^verbatim>\<open>cTypeToFFIType\<close> return strings, and for such a type they return the name
  converted by \<^verbatim>\<open>toGoName\<close> and the descriptor of an opaque address;
  \<^verbatim>\<open>generateTypes\<close> and \<^verbatim>\<open>generateFunctions\<close> always return a \<^verbatim>\<open>nil\<close> error.
\<close>

theorem unknown_type_defaults:
  assumes "\<not> IsPointer ct" and "CType.Name ct \<notin> primitiveNames"
    and "\<not> list_ex (\<lambda>s. Struct.Name s = CType.Name ct) (Structs (header g))"
    and "\<not> list_ex (\<lambda>e. Enum.Name e = CType.Name ct) (Enums (header g))"
  shows "cTypeToGoType ct (header g) = toGoName (CType.Name ct)
       \<and> cTypeToFFIType ct (header g) = ''&ffi.TypePointer''
       \<and> (\<exists>code. generateTypes g = Inr code)
       \<and> (\<exists>code. generateFunctions g = Inr code)"
proof -
  have go: "cTypeToGoType ct (header g) = toGoName (CType.Name ct)"
    using assms(1,2) by (simp add: cTypeToGoType_def goTypeSwitch_default)
  have nost:
    "\<not> list_ex (\<lambda>s. Struct.Name s = CType.Name ct \<and> \<not> IsOpaque s) (Structs (header g))"
    using assms(3) by (auto simp: list_ex_iff)
  have ffi: "cTypeToFFIType ct (header g) = ''&ffi.TypePointer''"
    using assms(1,2) nost by (simp add: cTypeToFFIType_def primitiveNames_def Let_def)
  show ?thesis using go ffi by (simp add: generateTypes_def generateFunctions_def)
qed

text \<open>The type \<^verbatim>\<open>foo_t\<close> with an empty header.\<close>

theorem unknown_type_defaults_witness:
  "cTypeToGoType
     \<lparr>CType.Name = ''foo_t'', IsPointer = False, IsConst = False, IsUnsigned = False,
      IsArray = False, ArraySize = 0\<rparr>
     \<lparr>Structs = [], Functions = [], TypeDefs = [], Enums = []\<rparr>
   = toGoName ''foo_t''
   \<and> cTypeToFFIType
     \<lparr>CType.Name = ''foo_t'', IsPointer = False, IsConst = False, IsUnsigned = False,
      IsArray = False, ArraySize = 0\<rparr>
     \<lparr>Structs = [], Functions = [], TypeDefs = [], Enums = []\<rparr>
   = ''&ffi.TypePointer''"
  using unknown_type_defaults
    [of "\<lparr>CType.Name = ''foo_t'', IsPointer = False, IsConst = False, IsUnsigned = False,
          IsArray = False, ArraySize = 0\<rparr>"
        "\<lparr>packageName = ''p'', libName = ''l'',
          header = \<lparr>Structs = [], Functions = [], TypeDefs = [], Enums = []\<rparr>\<rparr>"]
  by (simp add: primitiveNames_def)

text \<open>
  A struct \<^verbatim>\<open>S\<close> with one field \<^verbatim>\<open>x\<close> of the unknown type \<^verbatim>\<open>foo_t\<close>: the type is mapped
  to \<^verbatim>\<open>FooT\<close> and to the descriptor of an opaque address, and \<^verbatim>\<open>generateTypes\<close> returns
  the code with a \<^verbatim>\<open>nil\<close> error.
\<close>

theorem unknown_type_counterexample:
  "cTypeToGoType
     \<lparr>CType.Name = ''foo_t'', IsPointer = False, IsConst = False, IsUnsigned = False,
      IsArray = False, ArraySize = 0\<rparr>
     \<lparr>Structs = [], Functions = [], TypeDefs = [], Enums = []\<rparr>
   = ''FooT''
   \<and> cTypeToFFIType
     \<lparr>CType.Name = ''foo_t'', IsPointer = False, IsConst = False, IsUnsigned = False,
      IsArray = False, ArraySize = 0\<rparr>
     \<lparr>Structs = [], Functions = [], TypeDefs = [], Enums = []\<rparr>
   = ''&ffi.TypePointer''
   \<and> generateTypes
     \<lparr>packageName = ''p'', libName = ''l'',
      header =
        \<lparr>Structs =
           [\<lparr>Struct.Name = ''S'', TypeDef = [],
             Fields =
               [\<lparr>StructField.Name = ''x'',
                 Type = \<lparr>CType.Name = ''foo_t'', IsPointer = False, IsConst = False,
                         IsUnsigned = False, IsArray = False, ArraySize = 0\<rparr>\<rparr>],
             IsOpaque = False\<rparr>],
         Functions = [], TypeDefs = [], Enums = []\<rparr>\<rparr>
   = Inr (''package p\<newline>\<newline>import \"github.com/jupiterrider/ffi\"\<newline>\<newline>''
          @ ''type S struct {\<newline>''
          @ tab @ ''X FooT\<newline>''
          @ ''}\<newline>\<newline>''
          @ ''var FFITypeS = ffi.NewType(\<newline>''
          @ tab @ ''&ffi.TypePointer,\<newline>''
          @ '')\<newline>\<newline>'')"
  by code_simp

subsection \<open>C2: the values of an enum\<close>

text \<open>
  Claim C2 says that a member of an enum without an explicit value has the value of
  the member before it plus 1 (0 for the first member), so that the members
  \<^verbatim>\<open>[A, B=5, C]\<close> give the constants \<^verbatim>\<open>A=0\<close>, \<^verbatim>\<open>B=5\<close>, \<^verbatim>\<open>C=6\<close> in the emitted code. For
  these members \<^verbatim>\<open>generateTypes\<close> emits the constant block below: \<^verbatim>\<open>C\<close> stands alone after
  \<^verbatim>\<open>B E = 5\<close>, and a constant without an expression repeats in Go the expression of
  the constant before it, so the emitted \<^verbatim>\<open>C\<close> is 5.
\<close>

theorem enum_member_after_explicit_value:
  "generateTypes
     \<lparr>packageName = ''p'', libName = ''l'',
      header =
        \<lparr>Structs = [], Functions = [], TypeDefs = [],
         Enums =
           [\<lparr>Enum.Name = ''E'',
             Values = [\<lparr>EnumValue.Name = ''A'', Value = []\<rparr>,
                       \<lparr>EnumValue.Name = ''B'', Value = ''5''\<rparr>,
                       \<lparr>EnumValue.Name = ''C'', Value = []\<rparr>]\<rparr>]\<rparr>\<rparr>
   = Inr (''package p\<newline>\<newline>import \"github.com/jupiterrider/ffi\"\<newline>\<newline>''
          @ ''type E int32\<newline>\<newline>''
          @ ''const (\<newline>''
          @ tab @ ''A E = iota\<newline>''
          @ tab @ ''B E = 5\<newline>''
          @ tab @ ''C\<newline>''
          @ '')\<newline>\<newline>'')"
  by code_simp

subsection \<open>C3: the naming rule\<close>

text \<open>
  Claim C3 says that the Go name of a C name is made of its parts between underscores,
  each with a capital first letter and the rest in lower case, a part that is one of the
  acronyms in upper case, and that all other parts are kept. In \<^verbatim>\<open>toGoName\<close> an acronym
  resets the string builder, which drops the parts before it: \<^verbatim>\<open>user_id\<close> becomes \<^verbatim>\<open>ID\<close>,
  not \<^verbatim>\<open>UserID\<close>. The test for the suffix drops the rest of a part where the builder
  already ends in the upper-cased part: \<^verbatim>\<open>a_aa\<close> becomes \<^verbatim>\<open>AA\<close>, not \<^verbatim>\<open>AAa\<close>.
\<close>

theorem toGoName_drops_parts:
  "toGoName ''user_id'' = ''ID'' \<and> toGoName ''a_aa'' = ''AA''
   \<and> toGoName ''calc_get_version'' = ''CalcGetVersion''"
  by code_simp

subsection \<open>C4: pointers to structs and raw pointers\<close>

text \<open>
  Claim C4 says that a pointer to a known struct that is not opaque, and a pointer that
  is neither a string nor a pointer to a struct, are both mapped to the generic
  address-sized type, with the descriptor of an opaque address. The descriptor is as
  claimed for every pointer. The target type of a raw pointer is \<^verbatim>\<open>uintptr\<close>, but for a
  pointer to a known struct that is not opaque \<^verbatim>\<open>cTypeToGoType\<close> returns a typed pointer:
  \<^verbatim>\<open>*\<close> followed by the Go name of the struct.
\<close>

theorem pointer_type_mapping:
  "(IsPointer ct \<longrightarrow> cTypeToFFIType ct hdr = ''&ffi.TypePointer'')
   \<and> (IsPointer ct \<and> CType.Name ct \<noteq> ''char'' \<and> CType.Name ct \<noteq> ''char *''
        \<and> list_ex (\<lambda>s. Struct.Name s = CType.Name ct \<and> \<not> IsOpaque s) (Structs hdr)
      \<longrightarrow> cTypeToGoType ct hdr = ''*'' @ toGoName (CType.Name ct)
          \<and> cTypeToGoType ct hdr \<noteq> ''uintptr'')
   \<and> (IsPointer ct \<and> CType.Name ct \<noteq> ''char'' \<and> CType.Name ct \<noteq> ''char *''
        \<and> \<not> list_ex (\<lambda>s. Struct.Name s = CType.Name ct) (Structs hdr)
      \<longrightarrow> cTypeToGoType ct hdr = ''uintptr'')"
  by (auto simp: cTypeToFFIType_def cTypeToGoType_def list_ex_iff)

text \<open>A pointer to the struct \<^verbatim>\<open>Point\<close> and a pointer to \<^verbatim>\<open>int\<close>, with \<^verbatim>\<open>Point\<close> the only struct.\<close>

theorem pointer_type_mapping_witness:
  "cTypeToFFIType
     \<lparr>CType.Name = ''Point'', IsPointer = True, IsConst = False, IsUnsigned = False,
      IsArray = False, ArraySize = 0\<rparr>
     \<lparr>Structs = [\<lparr>Struct.Name = ''Point'', TypeDef = [], Fields = [], IsOpaque = False\<rparr>],
      Functions = [], TypeDefs = [], Enums = []\<rparr>
   = ''&ffi.TypePointer''
   \<and> cTypeToGoType
     \<lparr>CType.Name = ''Point'', IsPointer = True, IsConst = False, IsUnsigned = False,
      IsArray = False, ArraySize = 0\<rparr>
     \<lparr>Structs = [\<lparr>Struct.Name = ''Point'', TypeDef = [], Fields = [], IsOpaque = False\<rparr>],
      Functions = [], TypeDefs = [], Enums = []\<rparr>
   = ''*'' @ toGoName ''Point''
   \<and> cTypeToGoType
     \<lparr>CType.Name = ''int'', IsPointer = True, IsConst = False, IsUnsigned = False,
      IsArray = False, ArraySize = 0\<rparr>
     \<lparr>Structs = [\<lparr>Struct.Name = ''Point'', TypeDef = [], Fields = [], IsOpaque = False\<rparr>],
      Functions = [], TypeDefs = [], Enums = []\<rparr>
   = ''uintptr''"
  using pointer_type_mapping
    [of "\<lparr>CType.Name = ''Point'', IsPointer = True, IsConst = False, IsUnsigned = False,
          IsArray = False, ArraySize = 0\<rparr>"
        "\<lparr>Structs = [\<lparr>Struct.Name = ''Point'', TypeDef = [], Fields = [], IsOpaque = False\<rparr>],
          Functions = [], TypeDefs = [], Enums = []\<rparr>"]
    pointer_type_mapping
    [of "\<lparr>CType.Name = ''int'', IsPointer = True, IsConst = False, IsUnsigned = False,
          IsArray = False, ArraySize = 0\<rparr>"
        "\<lparr>Structs = [\<lparr>Struct.Name = ''Point'', TypeDef = [], Fields = [], IsOpaque = False\<rparr>],
          Functions = [], TypeDefs = [], Enums = []\<rparr>"]
  by simp

theorem struct_pointer_counterexample:
  "cTypeToGoType
     \<lparr>CType.Name = ''Point'', IsPointer = True, IsConst = False, IsUnsigned = False,
      IsArray = False, ArraySize = 0\<rparr>
     \<lparr>Structs = [\<lparr>Struct.Name = ''Point'', TypeDef = [], Fields = [], IsOpaque = False\<rparr>],
      Functions = [], TypeDefs = [], Enums = []\<rparr>
   = ''*Point''
   \<and> cTypeToGoType
     \<lparr>CType.Name = ''Point'', IsPointer = True, IsConst = False, IsUnsigned = False,
      IsArray = False, ArraySize = 0\<rparr>
     \<lparr>Structs = [\<lparr>Struct.Name = ''Point'', TypeDef = [], Fields = [], IsOpaque = False\<rparr>],
      Functions = [], TypeDefs = [], Enums = []\<rparr>
   \<noteq> ''uintptr''"
  by code_simp

subsection \<open>C5: variadic functions\<close>

text \<open>
  Claim C5 says that a function declaration marked variadic is rejected with an
  UnsupportedConstruct error. The parser drops the part \<^verbatim>\<open>...\<close> of a parameter list and
  sets the flag \<^verbatim>\<open>IsVariadic\<close>; the generator never reads the flag, so the variable of the
  function, its registration and its wrapper are those of the declaration without the
  flag, and \<^verbatim>\<open>generateFunctions\<close> returns a \<^verbatim>\<open>nil\<close> error.
\<close>

theorem variadic_flag_ignored:
  "parseParamPart ''...'' (params, isVariadic) = Inr (params, True)
   \<and> generateFunctionWrapper g (fn\<lparr>IsVariadic := v\<rparr>) = generateFunctionWrapper g fn
   \<and> prepStatement g (fn\<lparr>IsVariadic := v\<rparr>) = prepStatement g fn
   \<and> funcVarDecl (fn\<lparr>IsVariadic := v\<rparr>) = funcVarDecl fn
   \<and> (\<exists>code. generateFunctions g = Inr code)"
proof -
  have 1: "parseParamPart ''...'' (params, isVariadic) = Inr (params, True)"
    by (simp add: parseParamPart_def strings_TrimSpace_def unicode_IsSpace_def)
  have 2: "generateFunctionWrapper g (fn\<lparr>IsVariadic := v\<rparr>) = generateFunctionWrapper g fn"
    by (simp add: generateFunctionWrapper_def wrapperSignature_def wrapperResultDecl_def
        wrapperCallArgs_def wrapperReturn_def Let_def)
  have 3: "prepStatement g (fn\<lparr>IsVariadic := v\<rparr>) = prepStatement g fn"
    by (simp add: prepStatement_def Let_def)
  have 4: "funcVarDecl (fn\<lparr>IsVariadic := v\<rparr>) = funcVarDecl fn"
    by (simp add: funcVarDecl_def Let_def)
  show ?thesis using 1 2 3 4 by (simp add: generateFunctions_def)
qed

text \<open>The declaration \<^verbatim>\<open>void log_msg(const char* fmt, ...)\<close>, with and without the flag.\<close>

theorem variadic_flag_ignored_witness:
  "generateFunctionWrapper
     \<lparr>packageName = ''p'', libName = ''l'',
      header = \<lparr>Structs = [], Functions = [], TypeDefs = [], Enums = []\<rparr>\<rparr>
     \<lparr>Function.Name = ''log_msg'',
      ReturnType = \<lparr>CType.Name = ''void'', IsPointer = False, IsConst = False,
                    IsUnsigned = False, IsArray = False, ArraySize = 0\<rparr>,
      Params = [\<lparr>FunctionParam.Name = ''fmt'',
                 Type = \<lparr>CType.Name = ''char'', IsPointer = True, IsConst = True,
                         IsUnsigned = False, IsArray = False, ArraySize = 0\<rparr>\<rparr>],
      IsVariadic = True\<rparr>
   = generateFunctionWrapper
     \<lparr>packageName = ''p'', libName = ''l'',
      header = \<lparr>Structs = [], Functions = [], TypeDefs = [], Enums = []\<rparr>\<rparr>
     \<lparr>Function.Name = ''log_msg'',
      ReturnType = \<lparr>CType.Name = ''void'', IsPointer = False, IsConst = False,
                    IsUnsigned = False, IsArray = False, ArraySize = 0\<rparr>,
      Params = [\<lparr>FunctionParam.Name = ''fmt'',
                 Type = \<lparr>CType.Name = ''char'', IsPointer = True, IsConst = True,
                         IsUnsigned = False, IsArray = False, ArraySize = 0\<rparr>\<rparr>],
      IsVariadic = False\<rparr>"
  using variadic_flag_ignored
    [where params = "[]" and isVariadic = False and v = True
      and g = "\<lparr>packageName = ''p'', libName = ''l'',
          header = \<lparr>Structs = [], Functions = [], TypeDefs = [], Enums = []\<rparr>\<rparr>"
      and fn = "\<lparr>Function.Name = ''log_msg'',
          ReturnType = \<lparr>CType.Name = ''void'', IsPointer = False, IsConst = False,
                        IsUnsigned = False, IsArray = False, ArraySize = 0\<rparr>,
          Params = [\<lparr>FunctionParam.Name = ''fmt'',
                     Type = \<lparr>CType.Name = ''char'', IsPointer = True, IsConst = True,
                             IsUnsigned = False, IsArray = False, ArraySize = 0\<rparr>\<rparr>],
          IsVariadic = False\<rparr>"]
  by simp

text \<open>
  The match of \<^verbatim>\<open>void log_msg(const char* fmt, ...);\<close> is parsed to a function with one
  parameter and the flag set, and the generator emits a registration and a wrapper with
  that one parameter.
\<close>

theorem variadic_counterexample:
  "parseFunctionMatch
     [''void log_msg(const char* fmt, ...);'', ''void'', ''log_msg'', ''const char* fmt, ...'']
     \<lparr>Structs = [], Functions = [], TypeDefs = [], Enums = []\<rparr>
   = Inr \<lparr>Structs = [],
          Functions =
            [\<lparr>Function.Name = ''log_msg'',
              ReturnType = \<lparr>CType.Name = ''void'', IsPointer = False, IsConst = False,
                            IsUnsigned = False, IsArray = False, ArraySize = 0\<rparr>,
              Params = [\<lparr>FunctionParam.Name = ''fmt'',
                         Type = \<lparr>CType.Name = ''char'', IsPointer = True, IsConst = True,
                                 IsUnsigned = False, IsArray = False, ArraySize = 0\<rparr>\<rparr>],
              IsVariadic = True\<rparr>],
          TypeDefs = [], Enums = []\<rparr>
   \<and> prepStatement
     \<lparr>packageName = ''p'', libName = ''l'',
      header = \<lparr>Structs = [], Functions = [], TypeDefs = [], Enums = []\<rparr>\<rparr>
     \<lparr>Function.Name = ''log_msg'',
      ReturnType = \<lparr>CType.Name = ''void'', IsPointer = False, IsConst = False,
                    IsUnsigned = False, IsArray = False, ArraySize = 0\<rparr>,
      Params = [\<lparr>FunctionParam.Name = ''fmt'',
                 Type = \<lparr>CType.Name = ''char'', IsPointer = True, IsConst = True,
                         IsUnsigned = False, IsArray = False, ArraySize = 0\<rparr>\<rparr>],
      IsVariadic = True\<rparr>
   = tab @ ''if logMsgFunc, err = lib.Prep(\"log_msg\", &ffi.TypeVoid, &ffi.TypePointer); err != nil {\<newline>''
     @ tab @ tab @ ''return fmt.Errorf(\"log_msg: %w\", err)\<newline>''
     @ tab @ ''}\<newline>\<newline>''
   \<and> generateFunctionWrapper
     \<lparr>packageName = ''p'', libName = ''l'',
      header = \<lparr>Structs = [], Functions = [], TypeDefs = [], Enums = []\<rparr>\<rparr>
     \<lparr>Function.Name = ''log_msg'',
      ReturnType = \<lparr>CType.Name = ''void'', IsPointer = False, IsConst = False,
                    IsUnsigned = False, IsArray = False, ArraySize = 0\<rparr>,
      Params = [\<lparr>FunctionParam.Name = ''fmt'',
                 Type = \<lparr>CType.Name = ''char'', IsPointer = True, IsConst = True,
                         IsUnsigned = False, IsArray = False, ArraySize = 0\<rparr>\<rparr>],
      IsVariadic = True\<rparr>
   = ''func LogMsg(fmt string) {\<newline>''
     @ tab @ ''fmtPtr, _ := unix.BytePtrFromString(fmt)\<newline>''
     @ tab @ ''logMsgFunc.Call(nil, unsafe.Pointer(&fmtPtr))\<newline>''
     @ ''}\<newline>''"
  by code_simp

subsection \<open>C6: narrow integers and booleans are returned through a word-sized slot\<close>



text \<open>
  For comparison, a return type that is no pointer and no primitive name of the table
  (a struct by value, an opaque handle, an enum) is received directly in a slot of its
  target type.
\<close>

lemma other_return_received_directly:
  assumes "\<not> IsPointer (ReturnType fn)"
    and "CType.Name (ReturnType fn) \<notin> primitiveNames"
  shows "wrapperResultDecl g fn
           = tab @ ''var result '' @ toGoName (CType.Name (ReturnType fn)) @ ''\<newline>''
       \<and> wrapperReturn g fn = tab @ ''return result\<newline>''"
proof -
  have nf: "\<not> needsFFIArg (ReturnType fn)" "CType.Name (ReturnType fn) \<noteq> ''void''"
    using assms by (auto simp: needsFFIArg_def primitiveNames_def)
  have ty: "cTypeToGoType (ReturnType fn) (header g) = toGoName (CType.Name (ReturnType fn))"
    using assms by (simp add: cTypeToGoType_def goTypeSwitch_default)
  show ?thesis
    using nf ty assms(1)
    by (simp add: wrapperResultDecl_def wrapperReturn_def isStringReturnType_def Let_def)
qed

subsection \<open>C7: the arguments of the call\<close>

text \<open>
  Claim C7: the argument that a wrapper passes for a parameter depends on the category
  of the parameter alone. A string parameter (a pointer to \<^verbatim>\<open>char\<close>) is first converted
  by \<^verbatim>\<open>unix.BytePtrFromString\<close> to a byte buffer ended by a zero byte, and the argument
  is the address of the variable that holds the address of the buffer; a struct passed
  by value gives the address of the value itself, \<^verbatim>\<open>&name\<close>; every other parameter gives
  \<^verbatim>\<open>unsafe.Pointer(&name)\<close>, the address of the local that holds the value. The two
  special categories exclude each other. The arguments of the call are the
  argument for the result followed by one argument for each parameter, in the order of
  the parameters, and the conversions stand before the call.
\<close>

theorem param_marshaling_policy:
  "(isStringType (FunctionParam.Type p) \<longrightarrow>
      \<not> isStructByValue (FunctionParam.Type p) (header g)
      \<and> stringConversion p
          = tab @ paramName p @ ''Ptr, _ := unix.BytePtrFromString('' @ paramName p @ '')\<newline>''
      \<and> callArg g p = ''unsafe.Pointer(&'' @ paramName p @ ''Ptr)'')
   \<and> (isStructByValue (FunctionParam.Type p) (header g) \<longrightarrow>
      stringConversion p = [] \<and> callArg g p = ''&'' @ paramName p)
   \<and> (\<not> isStringType (FunctionParam.Type p)
        \<and> \<not> isStructByValue (FunctionParam.Type p) (header g) \<longrightarrow>
      stringConversion p = [] \<and> callArg g p = ''unsafe.Pointer(&'' @ paramName p @ '')'')
   \<and> tl (wrapperCallArgs g fn) = map (callArg g) (Params fn)
   \<and> generateFunctionWrapper g fn =
       wrapperSignature g fn
       @ concat (map stringConversion (Params fn))
       @ wrapperResultDecl g fn
       @ tab @ toLowerCamel (Function.Name fn) @ ''Func.Call(''
       @ strings_Join (hd (wrapperCallArgs g fn) # map (callArg g) (Params fn)) '', ''
       @ '')\<newline>''
       @ wrapperReturn g fn
       @ ''}\<newline>''"
  by (auto simp: stringConversion_def callArg_def string_not_struct_by_value
      wrapperCallArgs_def generateFunctionWrapper_def Let_def)

text \<open>
  The three kinds of parameter, with the structs of the header \<^verbatim>\<open>calculator.h\<close>: the
  string \<^verbatim>\<open>char* buf\<close>, the struct by value \<^verbatim>\<open>CalcConfig config\<close> and the opaque handle
  \<^verbatim>\<open>Calc calc\<close>.
\<close>

theorem param_marshaling_policy_witness:
  "stringConversion
     \<lparr>FunctionParam.Name = ''buf'',
      Type = \<lparr>CType.Name = ''char'', IsPointer = True, IsConst = False, IsUnsigned = False,
              IsArray = False, ArraySize = 0\<rparr>\<rparr>
   = tab @ ''bufPtr, _ := unix.BytePtrFromString(buf)\<newline>''
   \<and> callArg
     \<lparr>packageName = ''calculator'', libName = ''calculator'',
      header =
        \<lparr>Structs = [\<lparr>Struct.Name = ''Calc'', TypeDef = [], Fields = [], IsOpaque = True\<rparr>,
                    \<lparr>Struct.Name = ''CalcConfig'', TypeDef = [], Fields = [],
                     IsOpaque = False\<rparr>],
         Functions = [], TypeDefs = [], Enums = []\<rparr>\<rparr>
     \<lparr>FunctionParam.Name = ''buf'',
      Type = \<lparr>CType.Name = ''char'', IsPointer = True, IsConst = False, IsUnsigned = False,
              IsArray = False, ArraySize = 0\<rparr>\<rparr>
   = ''unsafe.Pointer(&bufPtr)''
   \<and> callArg
     \<lparr>packageName = ''calculator'', libName = ''calculator'',
      header =
        \<lparr>Structs = [\<lparr>Struct.Name = ''Calc'', TypeDef = [], Fields = [], IsOpaque = True\<rparr>,
                    \<lparr>Struct.Name = ''CalcConfig'', TypeDef = [], Fields = [],
                     IsOpaque = False\<rparr>],
         Functions = [], TypeDefs = [], Enums = []\<rparr>\<rparr>
     \<lparr>FunctionParam.Name = ''config'',
      Type = \<lparr>CType.Name = ''CalcConfig'', IsPointer = False, IsConst = False,
              IsUnsigned = False, IsArray = False, ArraySize = 0\<rparr>\<rparr>
   = ''&config''
   \<and> callArg
     \<lparr>packageName = ''calculator'', libName = ''calculator'',
      header =
        \<lparr>Structs = [\<lparr>Struct.Name = ''Calc'', TypeDef = [], Fields = [], IsOpaque = True\<rparr>,
                    \<lparr>Struct.Name = ''CalcConfig'', TypeDef = [], Fields = [],
                     IsOpaque = False\<rparr>],
         Functions = [], TypeDefs = [], Enums = []\<rparr>\<rparr>
     \<lparr>FunctionParam.Name = ''calc'',
      Type = \<lparr>CType.Name = ''Calc'', IsPointer = False, IsConst = False, IsUnsigned = False,
              IsArray = False, ArraySize = 0\<rparr>\<rparr>
   = ''unsafe.Pointer(&calc)''"
proof -
  let ?g = "\<lparr>packageName = ''calculator'', libName = ''calculator'',
      header =
        \<lparr>Structs = [\<lparr>Struct.Name = ''Calc'', TypeDef = [], Fields = [], IsOpaque = True\<rparr>,
                    \<lparr>Struct.Name = ''CalcConfig'', TypeDef = [], Fields = [],
                     IsOpaque = False\<rparr>],
         Functions = [], TypeDefs = [], Enums = []\<rparr>\<rparr>"
  let ?buf = "\<lparr>FunctionParam.Name = ''buf'',
      Type = \<lparr>CType.Name = ''char'', IsPointer = True, IsConst = False, IsUnsigned = False,
              IsArray = False, ArraySize = 0\<rparr>\<rparr>"
  let ?config = "\<lparr>FunctionParam.Name = ''config'',
      Type = \<lparr>CType.Name = ''CalcConfig'', IsPointer = False, IsConst = False,
              IsUnsigned = False, IsArray = False, ArraySize = 0\<rparr>\<rparr>"
  let ?calc = "\<lparr>FunctionParam.Name = ''calc'',
      Type = \<lparr>CType.Name = ''Calc'', IsPointer = False, IsConst = False, IsUnsigned = False,
              IsArray = False, ArraySize = 0\<rparr>\<rparr>"
  have names: "paramName ?buf = ''buf''" "paramName ?config = ''config''"
    "paramName ?calc = ''calc''"
    by code_simp+
  have cats: "isStringType (FunctionParam.Type ?buf)"
    "isStructByValue (FunctionParam.Type ?config) (header ?g)"
    "\<not> isStringType (FunctionParam.Type ?calc)"
    "\<not> isStructByValue (FunctionParam.Type ?calc) (header ?g)"
    by (simp_all add: isStringType_def isStructByValue_def)
  show ?thesis
    using param_marshaling_policy [of ?buf ?g] param_marshaling_policy [of ?config ?g]
      param_marshaling_policy [of ?calc ?g] names cats
    by simp
qed

subsection \<open>C8: a string result that is the null address\<close>

text \<open>
  Claim C8: for every function whose return type is a string (a pointer to \<^verbatim>\<open>char\<close>) the
  wrapper receives the result as a raw address in \<^verbatim>\<open>resultPtr\<close>, and the statements
  after the call first test the address: if it is \<^verbatim>\<open>nil\<close> the wrapper returns the empty
  string, and only after that test does it read the bytes at the address, with
  \<^verbatim>\<open>unix.BytePtrToString\<close>. The whole text of the wrapper is the one below.
\<close>

theorem string_return_null_guard:
  assumes "isStringReturnType (ReturnType fn)"
  shows "generateFunctionWrapper g fn =
       ''func '' @ toGoName (Function.Name fn) @ ''(''
       @ strings_Join (map (paramDecl g) (Params fn)) '', '' @ '') string {\<newline>''
       @ concat (map stringConversion (Params fn))
       @ tab @ ''var resultPtr *byte\<newline>''
       @ tab @ toLowerCamel (Function.Name fn) @ ''Func.Call(''
       @ strings_Join (''unsafe.Pointer(&resultPtr)'' # map (callArg g) (Params fn)) '', ''
       @ '')\<newline>''
       @ tab @ ''if resultPtr == nil {\<newline>''
       @ tab @ tab @ ''return \"\"\<newline>''
       @ tab @ ''}\<newline>''
       @ tab @ ''return unix.BytePtrToString(resultPtr)\<newline>''
       @ ''}\<newline>''"
  using assms
  by (simp add: isStringReturnType_def generateFunctionWrapper_def wrapperSignature_def
      wrapperResultDecl_def wrapperCallArgs_def wrapperReturn_def needsFFIArg_def
      cTypeToGoType_def Let_def)

text \<open>The function \<^verbatim>\<open>const char* calc_get_version(void)\<close> of \<^verbatim>\<open>calculator.h\<close>.\<close>

theorem string_return_null_guard_witness:
  "generateFunctionWrapper
     \<lparr>packageName = ''calculator'', libName = ''calculator'',
      header = \<lparr>Structs = [], Functions = [], TypeDefs = [], Enums = []\<rparr>\<rparr>
     \<lparr>Function.Name = ''calc_get_version'',
      ReturnType = \<lparr>CType.Name = ''char'', IsPointer = True, IsConst = True,
                    IsUnsigned = False, IsArray = False, ArraySize = 0\<rparr>,
      Params = [], IsVariadic = False\<rparr>
   = ''func CalcGetVersion() string {\<newline>''
     @ tab @ ''var resultPtr *byte\<newline>''
     @ tab @ ''calcGetVersionFunc.Call(unsafe.Pointer(&resultPtr))\<newline>''
     @ tab @ ''if resultPtr == nil {\<newline>''
     @ tab @ tab @ ''return \"\"\<newline>''
     @ tab @ ''}\<newline>''
     @ tab @ ''return unix.BytePtrToString(resultPtr)\<newline>''
     @ ''}\<newline>''"
proof -
  have names: "toGoName ''calc_get_version'' = ''CalcGetVersion''"
    "toLowerCamel ''calc_get_version'' = ''calcGetVersion''"
    by code_simp+
  show ?thesis
    using string_return_null_guard
      [of "\<lparr>Function.Name = ''calc_get_version'',
            ReturnType = \<lparr>CType.Name = ''char'', IsPointer = True, IsConst = True,
                          IsUnsigned = False, IsArray = False, ArraySize = 0\<rparr>,
            Params = [], IsVariadic = False\<rparr>"
          "\<lparr>packageName = ''calculator'', libName = ''calculator'',
            header = \<lparr>Structs = [], Functions = [], TypeDefs = [], Enums = []\<rparr>\<rparr>"]
      names
    by (simp add: isStringReturnType_def)
qed

subsection \<open>C9: an empty parameter list\<close>



subsection \<open>C10: parsing never fails\<close>

text \<open>
  Claim C10: for every input text, and whatever the regular expressions match in it,
  \<^verbatim>\<open>Parse\<close> returns a header and a \<^verbatim>\<open>nil\<close> error: no index of the parser is out of
  range, and no step returns an error. Text in which no pattern matches is not
  reported: the header is then empty.
\<close>

theorem Parse_never_fails:
  "(\<exists>hdr. Parse re content = Inr hdr)
   \<and> ((\<forall>r. FindAllStringSubmatch re r (normalizeWhitespace re (removeComments re content))
            = [])
        \<longrightarrow> Parse re content
            = Inr \<lparr>Structs = [], Functions = [], TypeDefs = [], Enums = []\<rparr>)"
proof -
  define c where "c = normalizeWhitespace re (removeComments re content)"
  define h0 where "h0 = \<lparr>Structs = [], Functions = [], TypeDefs = [], Enums = []\<rparr>"
  obtain h1 where h1:
    "forEach parseTypeDefMatch (FindAllStringSubmatch re typedefRe c) h0 = Inr h1"
    using forEach_total [of parseTypeDefMatch, OF parseTypeDefMatch_total] by blast
  obtain h2 where h2:
    "forEach parseOpaqueMatch (FindAllStringSubmatch re opaqueRe c) h1 = Inr h2"
    using forEach_total [of parseOpaqueMatch, OF parseOpaqueMatch_total] by blast
  obtain h3 where h3:
    "forEach parseStructMatch (FindAllStringSubmatch re structRe c) h2 = Inr h3"
    using forEach_total [of parseStructMatch, OF parseStructMatch_total] by blast
  obtain h4 where h4:
    "forEach parseEnumMatch (FindAllStringSubmatch re enumRe c) h3 = Inr h4"
    using forEach_total [of parseEnumMatch, OF parseEnumMatch_total] by blast
  obtain h5 where h5:
    "forEach parseFunctionMatch (FindAllStringSubmatch re funcRe c) h4 = Inr h5"
    using forEach_total [of parseFunctionMatch, OF parseFunctionMatch_total] by blast
  have "Parse re content = Inr h5"
    using h1 h2 h3 h4 h5
    by (simp add: Parse_def parseTypeDefs_def parseStructs_def parseEnums_def
        parseFunctions_def andThen_def Let_def c_def h0_def)
  moreover have
    "(\<forall>r. FindAllStringSubmatch re r (normalizeWhitespace re (removeComments re content))
          = [])
     \<longrightarrow> Parse re content = Inr \<lparr>Structs = [], Functions = [], TypeDefs = [], Enums = []\<rparr>"
    by (simp add: Parse_def parseTypeDefs_def parseStructs_def parseEnums_def
        parseFunctions_def andThen_def Let_def)
  ultimately show ?thesis by blast
qed

text \<open>A text in which no pattern matches, with replacements that change nothing.\<close>

theorem Parse_never_fails_witness:
  "Parse \<lparr>ReplaceAllString = (\<lambda>r s repl. s), FindAllStringSubmatch = (\<lambda>r s. [])\<rparr>
     ''@@ this is not a declaration''
   = Inr \<lparr>Structs = [], Functions = [], TypeDefs = [], Enums = []\<rparr>"
  using Parse_never_fails
    [of "\<lparr>ReplaceAllString = (\<lambda>r s repl. s), FindAllStringSubmatch = (\<lambda>r s. [])\<rparr>"
        "''@@ this is not a declaration''"]
  by simp

end
